theory Spec2Isabelle
  imports Main "HOL-Library.Sublist" "HOL-Library.AList"
begin

section \<open>JavaScript values, strings and the platform\<close>

text \<open>
  The git tools server is TypeScript on Node.js. A JavaScript string is a sequence of code
  units; the model is \<^typ>\<open>string\<close>, one \<^typ>\<open>char\<close> per code unit below 256. The
  arguments of a tool call are a JSON object: an association list from property names to
  values, read with \<^const>\<open>map_of\<close>, where \<open>None\<close> is JavaScript's \<open>undefined\<close>.
  The values are the JSON scalars: no schema of the server has an array or an object as
  a property. JSON numbers are modelled by their integral values (the claims only use
  \<open>0\<close> and \<open>2\<close>).
\<close>

datatype jvalue = JString string | JNumber int | JBool bool | JNull

type_synonym jobject = "(string \<times> jvalue) list"

text \<open>
  Decimal rendering of an integral Number, as a template literal \<open>${n}\<close> prints it
  (JavaScript switches to exponent notation from \<open>1e21\<close> on, outside this model).
\<close>

fun show_nat :: "nat \<Rightarrow> string" where
  "show_nat n =
     (if n < 10 then [''0123456789'' ! n]
      else show_nat (n div 10) @ [''0123456789'' ! (n mod 10)])"

declare show_nat.simps [simp del]

definition show_int :: "int \<Rightarrow> string" where
  "show_int i = (if i < 0 then ''-'' @ show_nat (nat (- i)) else show_nat (nat i))"

text \<open>\<open>ToString\<close> of a property that may be missing: what \<open>${x}\<close> splices into a template.\<close>

fun js_ToString :: "jvalue option \<Rightarrow> string" where
  "js_ToString None = ''undefined''"
| "js_ToString (Some (JString s)) = s"
| "js_ToString (Some (JNumber n)) = show_int n"
| "js_ToString (Some (JBool b)) = (if b then ''true'' else ''false'')"
| "js_ToString (Some JNull) = ''null''"

text \<open>\<open>ToBoolean\<close>: the truthiness test of \<open>x ? a : b\<close>.\<close>

fun js_truthy :: "jvalue option \<Rightarrow> bool" where
  "js_truthy None = False"
| "js_truthy (Some (JString s)) = (s \<noteq> [])"
| "js_truthy (Some (JNumber n)) = (n \<noteq> 0)"
| "js_truthy (Some (JBool b)) = b"
| "js_truthy (Some JNull) = False"

text \<open>
  \<open>String.prototype.trim\<close> strips white space and line terminators from both ends: among
  the code units below 256 these are TAB, LF, VT, FF, CR, SPACE and NBSP.
\<close>

definition is_js_whitespace :: "char \<Rightarrow> bool" where
  "is_js_whitespace c =
     (c = CHR 0x09 \<or> c = CHR 0x0A \<or> c = CHR 0x0B \<or> c = CHR 0x0C \<or> c = CHR 0x0D
      \<or> c = CHR 0x20 \<or> c = CHR 0xA0)"

definition trim :: "string \<Rightarrow> string" where
  "trim s = rev (dropWhile is_js_whitespace (rev (dropWhile is_js_whitespace s)))"

text \<open>\<open>Array.prototype.join\<close> on strings, and \<open>JSON.stringify\<close> of an array of strings.\<close>

fun join_with :: "string \<Rightarrow> string list \<Rightarrow> string" where
  "join_with sep [] = []"
| "join_with sep [x] = x"
| "join_with sep (x # y # ys) = x @ sep @ join_with sep (y # ys)"

definition JSON_quote_char :: "char \<Rightarrow> string" where
  "JSON_quote_char c =
     (if c = CHR 0x22 then [CHR 0x5C, CHR 0x22]
      else if c = CHR 0x5C then [CHR 0x5C, CHR 0x5C]
      else if c = CHR 0x08 then [CHR 0x5C, CHR ''b'']
      else if c = CHR 0x0C then [CHR 0x5C, CHR ''f'']
      else if c = CHR 0x0A then [CHR 0x5C, CHR ''n'']
      else if c = CHR 0x0D then [CHR 0x5C, CHR ''r'']
      else if c = CHR 0x09 then [CHR 0x5C, CHR ''t'']
      else if (of_char c :: nat) < 32
        then [CHR 0x5C, CHR ''u'', CHR ''0'', CHR ''0'',
              ''0123456789abcdef'' ! ((of_char c :: nat) div 16),
              ''0123456789abcdef'' ! ((of_char c :: nat) mod 16)]
      else [c])"

definition JSON_quote :: "string \<Rightarrow> string" where
  "JSON_quote s = CHR 0x22 # concat (map JSON_quote_char s) @ [CHR 0x22]"

definition JSON_stringify :: "string list \<Rightarrow> string" where
  "JSON_stringify xs = ''['' @ join_with '','' (map JSON_quote xs) @ '']''"

text \<open>
  What the handlers reach outside the process. \<open>execAsync\<close> (the promisified
  \<open>child_process.exec\<close>) runs a shell command: it either rejects with an error or resolves
  with the command's standard output, and it may change the world \<open>'w\<close> and answer the
  same command differently the next time. \<open>path_resolve\<close>, \<open>path_join\<close> and
  \<open>path_dirname\<close> are the functions of Node's \<open>path\<close> module.
\<close>

datatype exec_error = ExecError string

record 'w platform =
  execAsync :: "string \<Rightarrow> 'w \<Rightarrow> (exec_error + string) \<times> 'w"
  path_resolve :: "string \<Rightarrow> string"
  path_join :: "string \<Rightarrow> string \<Rightarrow> string"
  path_dirname :: "string \<Rightarrow> string"

text \<open>
  Node's POSIX \<open>path.dirname\<close>: scan from the last code unit down to index 1 for the first
  slash that follows a non-slash; everything before it is the parent. A path with no such
  slash has the parent \<open>/\<close> when it is rooted and \<open>.\<close> otherwise.
\<close>

fun dirname_scan :: "string \<Rightarrow> nat \<Rightarrow> bool \<Rightarrow> nat option" where
  "dirname_scan path 0 matchedSlash = None"
| "dirname_scan path (Suc i) matchedSlash =
     (if path ! Suc i = CHR ''/''
      then (if \<not> matchedSlash then Some (Suc i) else dirname_scan path i matchedSlash)
      else dirname_scan path i False)"

definition dirname :: "string \<Rightarrow> string" where
  "dirname path =
     (if path = [] then ''.''
      else let hasRoot = (hd path = CHR ''/'') in
        (case dirname_scan path (length path - 1) True of
           None \<Rightarrow> if hasRoot then ''/'' else ''.''
         | Some e \<Rightarrow> if hasRoot \<and> e = 1 then ''//'' else take e path))"

section \<open>Tool definitions and capabilities\<close>

record ToolAnnotations =
  title :: string
  readOnlyHint :: bool
  destructiveHint :: bool
  idempotentHint :: bool
  openWorldHint :: bool

text \<open>
  The input schemas are zod objects \<open>z.object({...})\<close> whose properties are \<open>z.string()\<close>
  or \<open>z.number()\<close>, possibly \<open>.optional()\<close>. \<open>z.object\<close> is not strict.
  The \<open>.describe(...)\<close> texts of the properties document them and are left out.
\<close>

datatype ztype = ZString | ZNumber

record zfield =
  field_name :: string
  field_type :: ztype
  field_optional :: bool

record zobject =
  shape :: "zfield list"
  strict :: bool

definition z_object :: "zfield list \<Rightarrow> zobject" where
  "z_object fs = \<lparr>shape = fs, strict = False\<rparr>"

record ToolDefinition =
  name :: string
  description :: string
  inputSchema :: zobject
  annotations :: ToolAnnotations

text \<open>A content block of a tool result: \<open>{type: "text", text: t}\<close>.\<close>

datatype content = Text string

text \<open>
  A handler is an async function of the arguments. It resolves with the content blocks
  (\<open>Inr\<close>) or rejects (\<open>Inl\<close>); \<open>None\<close> is a handler that never settles.
\<close>

datatype handler_error = ExecFailure exec_error | TypeError string

type_synonym 'w handler_fn =
  "'w platform \<Rightarrow> jobject \<Rightarrow> 'w \<Rightarrow> ((handler_error + content list) \<times> 'w) option"

record 'w ToolCapability =
  tool_definition :: ToolDefinition
  handler :: "'w handler_fn"

definition read_only_annotations :: "string \<Rightarrow> ToolAnnotations" where
  "read_only_annotations t =
     \<lparr>title = t, readOnlyHint = True, destructiveHint = False,
      idempotentHint = True, openWorldHint = False\<rparr>"

definition path_field :: "zfield" where
  "path_field = \<lparr>field_name = ''path'', field_type = ZString, field_optional = False\<rparr>"

definition getGitReposTool :: ToolDefinition where
  "getGitReposTool =
     \<lparr>name = ''get_git_repos_from_path'',
      description = ''Discovers all parent git repositories by searching up the directory tree from the provided path. This tool checks each parent directory for a .git folder and returns all valid git repository paths found. Always use this tool first to obtain a valid repository path before using any other git tool in this suite. Usage: provide an absolute or relative path (such as your project directory or a file path), and the tool will return a list of all parent directories that are git repositories.'',
      inputSchema = z_object [path_field],
      annotations = read_only_annotations ''Get Git Repos From Path''\<rparr>"

definition getCurrentBranchTool :: ToolDefinition where
  "getCurrentBranchTool =
     \<lparr>name = ''get_current_branch'',
      description = ''Returns the name of the currently checked-out branch for a given git repository path. Internally, this tool runs 'git rev-parse --abbrev-ref HEAD' in the specified repository. Before using this tool, always call get_git_repos_from_path to obtain a valid repository path. Usage: provide the path to a git repository (as returned by get_git_repos_from_path) to get the current branch name.'',
      inputSchema = z_object [path_field],
      annotations = read_only_annotations ''Get Current Branch''\<rparr>"

definition getStatusTool :: ToolDefinition where
  "getStatusTool =
     \<lparr>name = ''get_git_status'',
      description = ''Retrieves the current status of the git repository at the specified path, including branch info and working directory changes. This tool runs 'git status --porcelain=v1 --branch' to provide a machine-readable summary. Always use get_git_repos_from_path first to get a valid repository path. Usage: provide the path to a git repository (from get_git_repos_from_path) to get its status.'',
      inputSchema = z_object [path_field],
      annotations = read_only_annotations ''Get Git Status''\<rparr>"

definition getLogTool :: ToolDefinition where
  "getLogTool =
     \<lparr>name = ''get_git_log'',
      description = ''Fetches the commit log for the specified git repository path. This tool runs 'git log --pretty=oneline' (optionally limited by maxCount) to return a concise list of commits. Always use get_git_repos_from_path first to get a valid repository path. Usage: provide the repository path (from get_git_repos_from_path) and optionally maxCount to limit the number of log entries returned.'',
      inputSchema = z_object [path_field,
        \<lparr>field_name = ''maxCount'', field_type = ZNumber, field_optional = True\<rparr>],
      annotations = read_only_annotations ''Get Git Log''\<rparr>"

definition getRemotesTool :: ToolDefinition where
  "getRemotesTool =
     \<lparr>name = ''get_git_remotes'',
      description = ''Lists all remotes configured for the git repository at the given path. This tool runs 'git remote -v' to show remote names and URLs. Always use get_git_repos_from_path first to get a valid repository path. Usage: provide the repository path (from get_git_repos_from_path) to list its remotes.'',
      inputSchema = z_object [path_field],
      annotations = read_only_annotations ''Get Git Remotes''\<rparr>"

definition getConfigTool :: ToolDefinition where
  "getConfigTool =
     \<lparr>name = ''get_git_config'',
      description = ''Retrieves the git configuration settings for the repository at the specified path. This tool runs 'git config --list' to return all config variables. Always use get_git_repos_from_path first to get a valid repository path. Usage: provide the repository path (from get_git_repos_from_path) to get its configuration.'',
      inputSchema = z_object [path_field],
      annotations = read_only_annotations ''Get Git Config''\<rparr>"

section \<open>The handlers\<close>

text \<open>
  A handler that runs one command and returns its output: \<open>await execAsync(cmd)\<close> throws
  when the command fails, which rejects the handler; \<open>post\<close> is what the handler does to
  \<open>stdout\<close> before it returns it as the single text block.
\<close>

definition run_command ::
  "'w platform \<Rightarrow> string \<Rightarrow> (string \<Rightarrow> string) \<Rightarrow> 'w \<Rightarrow> ((handler_error + content list) \<times> 'w) option"
where
  "run_command pf cmd post w =
     (case execAsync pf cmd w of
        (Inl e, w') \<Rightarrow> Some (Inl (ExecFailure e), w')
      | (Inr stdout, w') \<Rightarrow> Some (Inr [Text (post stdout)], w'))"

definition git_C :: "jobject \<Rightarrow> string" where
  "git_C args = ''git -C '' @ [CHR 0x22] @ js_ToString (map_of args ''path'') @ [CHR 0x22]"

definition getCurrentBranch_handler :: "'w handler_fn" where
  "getCurrentBranch_handler pf args w =
     run_command pf (git_C args @ '' rev-parse --abbrev-ref HEAD'') trim w"

definition getStatus_handler :: "'w handler_fn" where
  "getStatus_handler pf args w =
     run_command pf (git_C args @ '' status --porcelain=v1 --branch'') (\<lambda>stdout. stdout) w"

definition countArg :: "jobject \<Rightarrow> string" where
  "countArg args =
     (if js_truthy (map_of args ''maxCount'')
      then ''-n '' @ js_ToString (map_of args ''maxCount'') else '''')"

definition getLog_handler :: "'w handler_fn" where
  "getLog_handler pf args w =
     run_command pf (git_C args @ '' log '' @ countArg args @ '' --pretty=oneline'')
       (\<lambda>stdout. stdout) w"

definition getRemotes_handler :: "'w handler_fn" where
  "getRemotes_handler pf args w =
     run_command pf (git_C args @ '' remote -v'') (\<lambda>stdout. stdout) w"

definition getConfig_handler :: "'w handler_fn" where
  "getConfig_handler pf args w =
     run_command pf (git_C args @ '' config --list'') (\<lambda>stdout. stdout) w"

text \<open>
  The body of the \<open>try\<close> block of the ancestor walk: the test command runs twice, the
  first output is dropped, and the directory counts when the second output trims to
  \<open>found\<close>. The empty \<open>catch\<close> turns a rejection of either run into "not found".
\<close>

definition probe_command :: "string \<Rightarrow> string" where
  "probe_command gitDir =
     ''[ -d '' @ [CHR 0x22] @ gitDir @ [CHR 0x22] @ '' ] && echo found || echo notfound''"

definition probe :: "'w platform \<Rightarrow> string \<Rightarrow> 'w \<Rightarrow> bool \<times> 'w" where
  "probe pf current w =
     (let gitDir = path_join pf current ''.git'' in
      case execAsync pf (probe_command gitDir) w of
        (Inl e, w1) \<Rightarrow> (False, w1)
      | (Inr ignored, w1) \<Rightarrow>
          (case execAsync pf (probe_command gitDir) w1 of
             (Inl e, w2) \<Rightarrow> (False, w2)
           | (Inr stdout, w2) \<Rightarrow> (trim stdout = ''found'', w2)))"

text \<open>
  The \<open>while (true)\<close> loop: probe \<open>current\<close>, then stop if \<open>dirname(current)\<close> is
  \<open>current\<close> itself, else go on with the parent. Nothing in the loop bounds the number
  of rounds, so the model is a partial function: \<open>None\<close> is a loop that never ends.
\<close>

partial_function (option) walk ::
  "'w platform \<Rightarrow> string \<Rightarrow> string list \<Rightarrow> 'w \<Rightarrow> (string list \<times> 'w) option"
where
  "walk pf current found w =
     (case probe pf current w of
        (hit, w') \<Rightarrow>
          (let found' = (if hit then found @ [current] else found);
               parent = path_dirname pf current
           in if parent = current then Some (found', w') else walk pf parent found' w'))"

text \<open>\<open>path.resolve\<close> throws a \<open>TypeError\<close> on an argument that is not a string.\<close>

definition getGitRepos_handler :: "'w handler_fn" where
  "getGitRepos_handler pf args w =
     (case map_of args ''path'' of
        Some (JString p) \<Rightarrow>
          (case walk pf (path_resolve pf p) [] w of
             None \<Rightarrow> None
           | Some (found, w') \<Rightarrow> Some (Inr [Text (JSON_stringify found)], w'))
      | _ \<Rightarrow> Some (Inl (TypeError ''ERR_INVALID_ARG_TYPE''), w))"

text \<open>
  Modelled from the spec: \<open>createTool\<close> and \<open>createToolDefinition\<close> of
  \<open>./utils/tools\<close> are not among the sources. \<open>createTool\<close> binds a handler to a
  definition; the tests read the result as \<open>{definition, handler}\<close>.
  \<open>createToolDefinition\<close> returns the definition it is given when the name is not empty
  and the schema is well formed, as it is for the six definitions above.
\<close>

definition createTool :: "ToolDefinition \<Rightarrow> 'w handler_fn \<Rightarrow> 'w ToolCapability" where
  "createTool d h = \<lparr>tool_definition = d, handler = h\<rparr>"

definition gitTools :: "'w ToolCapability list" where
  "gitTools =
     [createTool getGitReposTool getGitRepos_handler,
      createTool getCurrentBranchTool getCurrentBranch_handler,
      createTool getStatusTool getStatus_handler,
      createTool getLogTool getLog_handler,
      createTool getRemotesTool getRemotes_handler,
      createTool getConfigTool getConfig_handler]"

text \<open>
  The tests reach a handler by name:
  \<open>gitTools.find((t) => t.definition.name === name)\<close>, and throw when there is none.
\<close>

definition getToolHandler :: "string \<Rightarrow> 'w handler_fn option" where
  "getToolHandler n =
     map_option handler (find (\<lambda>t. name (tool_definition t) = n) gitTools)"

text \<open>
  The directories the walk visits on a platform whose \<open>dirname\<close> is the POSIX one: the
  start, its parent, and so on up to the first path that is its own parent. Each step
  towards the fixpoint lowers \<open>path_measure\<close>.
\<close>

definition path_measure :: "string \<Rightarrow> nat" where
  "path_measure p = (if p = ''/'' \<or> p = ''.'' then 0 else length p + 1)"

lemma dirname_scan_le: "dirname_scan path i m = Some e \<Longrightarrow> 1 \<le> e \<and> e \<le> i"
  by (induction path i m rule: dirname_scan.induct) (auto split: if_splits)

lemma dirname_scan_less: "dirname_scan path i True = Some e \<Longrightarrow> e < i"
  by (cases i) (auto split: if_splits dest: dirname_scan_le)

lemma dirname_fixpoints: "dirname ''/'' = ''/''" "dirname ''.'' = ''.''"
  by (simp_all add: dirname_def)

lemma dirname_decreases:
  assumes "dirname p \<noteq> p"
  shows "path_measure (dirname p) < path_measure p"
proof -
  have nfix: "p \<noteq> ''/''" "p \<noteq> ''.''"
    using assms dirname_fixpoints by auto
  show ?thesis
  proof (cases "dirname_scan p (length p - 1) True")
    case None
    then have "dirname p = ''/'' \<or> dirname p = ''.''"
      by (simp add: dirname_def Let_def)
    then show ?thesis using nfix by (auto simp: path_measure_def)
  next
    case (Some e)
    then have e: "1 \<le> e" "e < length p - 1"
      using dirname_scan_le dirname_scan_less by blast+
    then have "p \<noteq> []" by auto
    then have "dirname p = ''//'' \<or> dirname p = take e p"
      using Some by (simp add: dirname_def Let_def)
    then show ?thesis
    proof
      assume "dirname p = ''//''"
      then show ?thesis using e nfix by (simp add: path_measure_def)
    next
      assume "dirname p = take e p"
      moreover have "e < length p" using e by arith
      ultimately show ?thesis using nfix by (simp add: path_measure_def)
    qed
  qed
qed

function ancestors :: "string \<Rightarrow> string list" where
  "ancestors p = (if dirname p = p then [p] else p # ancestors (dirname p))"
  by pat_completeness auto
termination
  by (relation "measure path_measure") (auto simp: dirname_decreases)

declare ancestors.simps [simp del]

text \<open>Probing a list of directories one after the other, each exactly once.\<close>

fun probe_all :: "'w platform \<Rightarrow> string list \<Rightarrow> 'w \<Rightarrow> string list \<times> 'w" where
  "probe_all pf [] w = ([], w)"
| "probe_all pf (d # ds) w =
     (case probe pf d w of
        (hit, w1) \<Rightarrow>
          (case probe_all pf ds w1 of
             (found, w2) \<Rightarrow> (if hit then d # found else found, w2)))"

text \<open>
  What \<open>git log --pretty=oneline\<close> prints for a list of commit summaries: one line each,
  every line ended by a line feed.
\<close>

definition oneline :: "string list \<Rightarrow> string" where
  "oneline summaries = concat (map (\<lambda>s. s @ [CHR 0x0A]) summaries)"

text \<open>
  A scripted platform, as the tests mock \<open>child_process.exec\<close>: a command listed in
  \<open>answers\<close> prints its answer, any other command fails, and the world is the log of the
  commands that ran. Its \<open>path\<close> module is the POSIX one on normalized absolute paths.
\<close>

definition scripted :: "(string \<times> string) list \<Rightarrow> string list platform" where
  "scripted answers =
     \<lparr>execAsync = (\<lambda>cmd w.
        (case map_of answers cmd of
           None \<Rightarrow> Inl (ExecError cmd)
         | Some stdout \<Rightarrow> Inr stdout, w @ [cmd])),
      path_resolve = (\<lambda>p. p),
      path_join = (\<lambda>a b. if a = ''/'' then a @ b else a @ ''/'' @ b),
      path_dirname = dirname\<rparr>"

section \<open>The server\<close>

text \<open>
  Modelled from the spec: the types \<open>ToolsetConfig\<close> and \<open>DynamicToolDiscoveryOptions\<close>
  of \<open>./types\<close> are not among the sources. The constructor below builds
  \<open>{ mode: "readOnly" }\<close> and \<open>{ enabled: true }\<close>; the spec names the modes \<open>readOnly\<close>
  and \<open>all\<close>.
\<close>

datatype ToolsetMode = readOnly | allMode

record ToolsetConfig =
  mode :: ToolsetMode

record DynamicToolDiscoveryOptions =
  enabled :: bool

record GitToolsMcpServerConfig =
  toolsetConfig :: "ToolsetConfig option"
  dynamicToolDiscovery :: "DynamicToolDiscoveryOptions option"
  availableTools :: "string list option"

text \<open>The options object that the constructor hands to \<open>super(...)\<close>.\<close>

record 'w McpServerOptions =
  server_name :: string
  server_version :: string
  opt_toolsetConfig :: ToolsetConfig
  opt_tools :: "'w ToolCapability list"
  opt_dynamicToolDiscovery :: DynamicToolDiscoveryOptions
  instructions :: string

text \<open>
  The constructor of \<open>GitToolsMcpServer\<close>, with the base list as a parameter (the source
  passes \<open>gitTools\<close>). \<open>config.availableTools?.length\<close> is falsy when the list is absent
  or empty; \<open>config.toolsetConfig || {...}\<close> takes the default only when the
  configuration has no \<open>toolsetConfig\<close>, since an object is truthy.
\<close>

definition GitToolsMcpServer_options ::
  "'w ToolCapability list \<Rightarrow> GitToolsMcpServerConfig \<Rightarrow> 'w McpServerOptions"
where
  "GitToolsMcpServer_options base config =
     \<lparr>server_name = ''git-tools-server'',
      server_version = ''1.0.0'',
      opt_toolsetConfig =
        (case toolsetConfig config of Some c \<Rightarrow> c | None \<Rightarrow> \<lparr>mode = readOnly\<rparr>),
      opt_tools =
        (case availableTools config of
           None \<Rightarrow> base
         | Some names \<Rightarrow>
             if length names \<noteq> 0
             then (if length names > 0
                   then filter (\<lambda>tool. name (tool_definition tool) \<in> set names) base
                   else base)
             else base),
      opt_dynamicToolDiscovery =
        (case dynamicToolDiscovery config of Some d \<Rightarrow> d | None \<Rightarrow> \<lparr>enabled = True\<rparr>),
      instructions = ''Git Tools MCP server. This server provides tools for interacting with git repositories. before all requests you have to use the tool get_git_repos_from_path to get the git repositories from a given path. Then you can use the other tools with the path of the git repository.''\<rparr>"

text \<open>
  Modelled from the spec: the class \<open>McpServer\<close> of \<open>./mcp-server\<close> (registry, policy,
  dispatch) is not among the sources. Construction fails with \<open>SchemaError\<close> when two
  capabilities share a name. The registry lists the capabilities the mode admits, in the
  order of the list it was given; \<open>readOnly\<close> admits a capability iff its
  \<open>destructiveHint\<close> is false, \<open>all\<close> admits every capability. \<open>resolve\<close> looks a name
  up among the listed capabilities only and fails with \<open>NotFound\<close> otherwise.
\<close>

datatype error_kind =
  SchemaError | NotFound | ValidationError "string list" | ToolExecutionError handler_error

type_synonym 'w McpServer = "'w McpServerOptions"

definition McpServer_new :: "'w McpServerOptions \<Rightarrow> error_kind + 'w McpServer" where
  "McpServer_new options =
     (if distinct (map (\<lambda>c. name (tool_definition c)) (opt_tools options))
      then Inr options else Inl SchemaError)"

definition mode_admits :: "ToolsetMode \<Rightarrow> ToolDefinition \<Rightarrow> bool" where
  "mode_admits m d =
     (case m of readOnly \<Rightarrow> destructiveHint (annotations d) = False | allMode \<Rightarrow> True)"

definition registry :: "'w McpServer \<Rightarrow> 'w ToolCapability list" where
  "registry srv =
     filter (\<lambda>c. mode_admits (mode (opt_toolsetConfig srv)) (tool_definition c)) (opt_tools srv)"

definition ListCapabilities :: "'w McpServer \<Rightarrow> ToolDefinition list" where
  "ListCapabilities srv = map tool_definition (registry srv)"

definition resolve :: "'w McpServer \<Rightarrow> string \<Rightarrow> error_kind + 'w ToolCapability" where
  "resolve srv n =
     (case find (\<lambda>c. name (tool_definition c) = n) (registry srv) of
        None \<Rightarrow> Inl NotFound
      | Some c \<Rightarrow> Inr c)"

text \<open>
  Modelled from the spec: validation of the arguments against the input schema. A field
  is offending when it is required and missing, or present with a value of the wrong
  type; in a strict (closed) schema every unknown property is offending too. The
  \<open>ValidationError\<close> carries the paths of all offending fields.
\<close>

fun has_type :: "ztype \<Rightarrow> jvalue \<Rightarrow> bool" where
  "has_type ZString (JString s) = True"
| "has_type ZNumber (JNumber n) = True"
| "has_type t v = False"

definition field_mismatch :: "jobject \<Rightarrow> zfield \<Rightarrow> bool" where
  "field_mismatch args f =
     (case map_of args (field_name f) of
        None \<Rightarrow> \<not> field_optional f
      | Some v \<Rightarrow> \<not> has_type (field_type f) v)"

definition validate :: "zobject \<Rightarrow> jobject \<Rightarrow> string list" where
  "validate schema args =
     map field_name (filter (field_mismatch args) (shape schema))
     @ (if strict schema
        then filter (\<lambda>k. k \<notin> set (map field_name (shape schema))) (map fst args)
        else [])"

text \<open>
  Modelled from the spec: \<open>InvokeCapability\<close>. Resolve the name (\<open>NotFound\<close>), validate
  the arguments (\<open>ValidationError\<close>, and the handler is not called), call the handler with
  the validated arguments, and return its content unchanged or its failure as a
  \<open>ToolExecutionError\<close>. The second component of the result lists the handler calls made,
  each with the name of the capability and the arguments the handler received.
\<close>

definition InvokeCapability ::
  "'w McpServer \<Rightarrow> 'w platform \<Rightarrow> string \<Rightarrow> jobject \<Rightarrow> 'w
     \<Rightarrow> ((error_kind + content list) \<times> (string \<times> jobject) list \<times> 'w) option"
where
  "InvokeCapability srv pf n args w =
     (case resolve srv n of
        Inl e \<Rightarrow> Some (Inl e, [], w)
      | Inr c \<Rightarrow>
          (case validate (inputSchema (tool_definition c)) args of
             p # ps \<Rightarrow> Some (Inl (ValidationError (p # ps)), [], w)
           | [] \<Rightarrow>
               (case handler c pf args w of
                  None \<Rightarrow> None
                | Some (Inl e, w') \<Rightarrow> Some (Inl (ToolExecutionError e), [(n, args)], w')
                | Some (Inr blocks, w') \<Rightarrow> Some (Inr blocks, [(n, args)], w'))))"

text \<open>
  The policy as the spec words it, for comparison with the server that the constructor
  builds: a capability is visible iff the mode admits it and, when the allow-list is
  present and not empty, its name is on the list.
\<close>

definition isVisible :: "ToolsetMode \<Rightarrow> string list option \<Rightarrow> 'w ToolCapability \<Rightarrow> bool" where
  "isVisible m allow c =
     (mode_admits m (tool_definition c)
      \<and> (case allow of
           None \<Rightarrow> True
         | Some names \<Rightarrow> names = [] \<or> name (tool_definition c) \<in> set names))"

section \<open>The SSE entry point\<close>

text \<open>
  The Express application of the SSE binary. Its state is the module variable
  \<open>transport\<close>; the model also records each \<open>server.server.connect(transport)\<close> and each
  \<open>transport.handlePostMessage(req, res)\<close> with the transport it was called on. A
  transport is known by the response stream \<open>res\<close> of the \<open>GET /sse\<close> that opened it, and
  that number also names its session: a client posts to \<open>/messages\<close> with the session it
  belongs to.
\<close>

record SSEServerTransport =
  endpoint :: string
  res :: nat

datatype http_request = GET_sse nat | POST_messages nat string

record sse_app =
  transport :: "SSEServerTransport option"
  connected :: "SSEServerTransport list"
  handled :: "(SSEServerTransport \<times> nat \<times> string) list"

definition sse_start :: sse_app where
  "sse_start = \<lparr>transport = None, connected = [], handled = []\<rparr>"

fun sse_request :: "sse_app \<Rightarrow> http_request \<Rightarrow> sse_app" where
  "sse_request app (GET_sse r) =
     (let t = \<lparr>endpoint = ''/messages'', res = r\<rparr>
      in app\<lparr>transport := Some t, connected := connected app @ [t]\<rparr>)"
| "sse_request app (POST_messages session body) =
     (case transport app of
        Some t \<Rightarrow> app\<lparr>handled := handled app @ [(t, session, body)]\<rparr>
      | None \<Rightarrow> app)"

definition sse_run :: "http_request list \<Rightarrow> sse_app" where
  "sse_run requests = foldl sse_request sse_start requests"

text \<open>
  A capability that is not one of \<open>gitTools\<close>, with \<open>destructiveHint\<close> true, to exercise
  the policy: all six git tools are read-only.
\<close>

definition sample_destructive_tool :: "'w ToolCapability" where
  "sample_destructive_tool =
     createTool
       \<lparr>name = ''git_reset_hard'',
        description = ''Discards all local changes of the repository at the given path.'',
        inputSchema = z_object [path_field],
        annotations = \<lparr>title = ''Git Reset Hard'', readOnlyHint = False,
          destructiveHint = True, idempotentHint = True, openWorldHint = False\<rparr>\<rparr>
       getStatus_handler"

abbreviation cap_name :: "'w ToolCapability \<Rightarrow> string" where
  "cap_name c \<equiv> name (tool_definition c)"

section \<open>Lemmas\<close>

subsection \<open>Handlers\<close>

lemma handler_lookup:
  "getToolHandler ''get_git_log'' = Some (getLog_handler :: 'w handler_fn)"
  "getToolHandler ''get_current_branch'' = Some (getCurrentBranch_handler :: 'w handler_fn)"
  "getToolHandler ''get_git_repos_from_path'' = Some (getGitRepos_handler :: 'w handler_fn)"
  by (simp_all add: getToolHandler_def gitTools_def createTool_def getGitReposTool_def
      getCurrentBranchTool_def getStatusTool_def getLogTool_def)

lemma trim_trailing:
  assumes "s \<noteq> []" "\<not> is_js_whitespace (hd s)" "\<not> is_js_whitespace (last s)"
    and "list_all is_js_whitespace ws"
  shows "trim (s @ ws) = s"
proof -
  from assms(1,2) have 1: "dropWhile is_js_whitespace (s @ ws) = s @ ws"
    by (cases s) auto
  have "dropWhile is_js_whitespace (rev ws @ rev s) = dropWhile is_js_whitespace (rev s)"
    using assms(4) by (intro dropWhile_append2) (simp add: list_all_iff)
  moreover have "dropWhile is_js_whitespace (rev s) = rev s"
    using assms(1,3) by (cases "rev s") (auto simp: last_rev [symmetric])
  ultimately have 2: "dropWhile is_js_whitespace (rev ws @ rev s) = rev s"
    by simp
  show ?thesis by (simp add: trim_def 1 2)
qed

subsection \<open>The ancestor walk\<close>

text \<open>On a POSIX platform the loop is the probing of the ancestors, one after the other.\<close>

lemma walk_ancestors:
  assumes "path_dirname pf = dirname"
  shows "walk pf c found w =
    Some (found @ fst (probe_all pf (ancestors c) w), snd (probe_all pf (ancestors c) w))"
proof (induction c arbitrary: found w rule: ancestors.induct)
  case (1 p)
  obtain hit w1 where pr: "probe pf p w = (hit, w1)" by (cases "probe pf p w")
  show ?case
  proof (cases "dirname p = p")
    case True
    then show ?thesis
      using assms pr by (subst walk.simps, subst (1 2) ancestors.simps) simp
  next
    case False
    have "walk pf p found w = walk pf (dirname p) (if hit then found @ [p] else found) w1"
      using assms pr False by (subst walk.simps) (simp add: Let_def)
    also have "\<dots> =
        Some ((if hit then found @ [p] else found) @ fst (probe_all pf (ancestors (dirname p)) w1),
              snd (probe_all pf (ancestors (dirname p)) w1))"
      by (rule "1.IH" [OF False])
    finally show ?thesis
      using False pr by (subst (1 2) ancestors.simps) (simp split: prod.splits)
  qed
qed








subsection \<open>Construction and registry\<close>

lemma opt_tools_allow:
  "opt_tools (GitToolsMcpServer_options base config) =
     (if availableTools config = None \<or> availableTools config = Some [] then base
      else filter (\<lambda>tool. cap_name tool \<in> set (the (availableTools config))) base)"
  by (auto simp: GitToolsMcpServer_options_def split: option.splits)

lemma McpServer_new_Inr:
  "McpServer_new options = Inr srv \<Longrightarrow>
     srv = options \<and> distinct (map cap_name (opt_tools options))"
  by (auto simp: McpServer_new_def split: if_splits)

lemma registry_options:
  "registry (GitToolsMcpServer_options base config) =
     filter (isVisible (mode (opt_toolsetConfig (GitToolsMcpServer_options base config)))
               (availableTools config)) base"
proof (cases "availableTools config = None \<or> availableTools config = Some []")
  case True
  then show ?thesis
    by (auto simp: registry_def opt_tools_allow isVisible_def [abs_def])
next
  case False
  then obtain names where n: "availableTools config = Some names" "names \<noteq> []"
    by (cases "availableTools config") auto
  then show ?thesis
    by (simp add: registry_def opt_tools_allow isVisible_def [abs_def] conj_commute)
qed

lemma resolve_NotFound_iff:
  "resolve srv n = Inl NotFound \<longleftrightarrow> n \<notin> cap_name ` set (registry srv)"
proof (cases "find (\<lambda>c. cap_name c = n) (registry srv)")
  case None
  then have "n \<notin> cap_name ` set (registry srv)"
    by (auto simp: find_None_iff)
  then show ?thesis
    using None by (simp add: resolve_def)
next
  case (Some c)
  then have "cap_name c = n \<and> c \<in> set (registry srv)"
    by (auto simp: find_Some_iff)
  then show ?thesis
    using Some by (auto simp: resolve_def)
qed

lemma invoke_NotFound:
  "resolve srv n = Inl NotFound \<Longrightarrow>
     InvokeCapability srv pf n args w = Some (Inl NotFound, [], w)"
  by (simp add: InvokeCapability_def)

lemmas tool_defs = gitTools_def createTool_def getGitReposTool_def getCurrentBranchTool_def
  getStatusTool_def getLogTool_def getRemotesTool_def getConfigTool_def
  sample_destructive_tool_def

section \<open>The claims\<close>

text \<open>
  C2. In mode \<open>readOnly\<close>, a capability of the base list whose \<open>destructiveHint\<close> is true
  is not in the sequence \<open>ListCapabilities\<close> returns, and invoking it by name fails with
  \<open>NotFound\<close> for every argument record, without a handler call: \<open>resolve\<close> searches
  the listed capabilities only. The server is any that construction returned for the base
  list and the configuration.
\<close>

theorem readOnly_hides_destructive:
  assumes new: "McpServer_new (GitToolsMcpServer_options base config) = Inr srv"
    and ro: "mode (opt_toolsetConfig srv) = readOnly"
    and C: "C \<in> set base"
    and destr: "destructiveHint (annotations (tool_definition C))"
  shows "tool_definition C \<notin> set (ListCapabilities srv)
    \<and> resolve srv (cap_name C) = Inl NotFound
    \<and> InvokeCapability srv pf (cap_name C) args w = Some (Inl NotFound, [], w)"
proof -
  from McpServer_new_Inr [OF new]
  have srv: "srv = GitToolsMcpServer_options base config"
    and dist: "distinct (map cap_name (opt_tools srv))" by simp_all
  have listed: "\<not> destructiveHint (annotations (tool_definition D))" if "D \<in> set (registry srv)" for D
    using that ro by (simp add: registry_def mode_admits_def)
  then have 1: "tool_definition C \<notin> set (ListCapabilities srv)"
    using destr by (auto simp: ListCapabilities_def)
  have "cap_name C \<notin> cap_name ` set (registry srv)"
  proof
    assume "cap_name C \<in> cap_name ` set (registry srv)"
    then obtain D where D: "D \<in> set (registry srv)" "cap_name D = cap_name C" by auto
    then have Dt: "D \<in> set (opt_tools srv)" by (simp add: registry_def)
    then have "C \<in> set (opt_tools srv)"
      using C D(2) unfolding srv opt_tools_allow by (auto split: if_splits)
    with Dt D(2) dist have "D = C"
      by (meson distinct_map inj_onD)
    with listed [OF D(1)] destr show False by simp
  qed
  then have 2: "resolve srv (cap_name C) = Inl NotFound"
    by (simp add: resolve_NotFound_iff)
  from 1 2 invoke_NotFound [OF 2] show ?thesis by simp
qed

theorem readOnly_hides_destructive_witness:
  "let base = gitTools @ [sample_destructive_tool];
       srv = GitToolsMcpServer_options base
               \<lparr>toolsetConfig = None, dynamicToolDiscovery = None, availableTools = None\<rparr>
   in McpServer_new srv = Inr srv
    \<and> mode (opt_toolsetConfig srv) = readOnly
    \<and> last base \<in> set base
    \<and> destructiveHint (annotations (tool_definition (last base)))
    \<and> map name (ListCapabilities srv)
        = [''get_git_repos_from_path'', ''get_current_branch'', ''get_git_status'',
           ''get_git_log'', ''get_git_remotes'', ''get_git_config'']
    \<and> tool_definition (last base) \<notin> set (ListCapabilities srv)
    \<and> InvokeCapability srv (scripted []) ''git_reset_hard'' [(''path'', JString ''/srv/repo'')] []
        = Some (Inl NotFound, [], [])"
proof -
  let ?cfg = "\<lparr>toolsetConfig = None, dynamicToolDiscovery = None, availableTools = None\<rparr>"
  let ?base = "gitTools @ [sample_destructive_tool :: string list ToolCapability]"
  let ?srv = "GitToolsMcpServer_options ?base ?cfg"
  have new: "McpServer_new ?srv = Inr ?srv"
    by (simp add: McpServer_new_def GitToolsMcpServer_options_def tool_defs)
  have ro: "mode (opt_toolsetConfig ?srv) = readOnly"
    by (simp add: GitToolsMcpServer_options_def)
  have C: "sample_destructive_tool \<in> set ?base" by simp
  have d: "destructiveHint (annotations (tool_definition (sample_destructive_tool :: string list ToolCapability)))"
    by (simp add: tool_defs)
  have n: "cap_name (sample_destructive_tool :: string list ToolCapability) = ''git_reset_hard''"
    by (simp add: tool_defs)
  have l: "map name (ListCapabilities ?srv)
        = [''get_git_repos_from_path'', ''get_current_branch'', ''get_git_status'',
           ''get_git_log'', ''get_git_remotes'', ''get_git_config'']"
    by (simp add: ListCapabilities_def registry_def GitToolsMcpServer_options_def mode_admits_def
        tool_defs read_only_annotations_def)
  show ?thesis
    using new ro C d l
      readOnly_hides_destructive [OF new ro C d, of "scripted []" "[(''path'', JString ''/srv/repo'')]" "[]"]
    unfolding n Let_def by simp
qed

text \<open>
  C3. With a non-empty \<open>availableTools\<close> the constructor keeps exactly the base
  capabilities whose name is on the list, so a capability is listed only if its name is a
  member, and invoking any name that is not a member fails with \<open>NotFound\<close>. With
  \<open>availableTools\<close> absent or empty the constructor passes the whole base list and the
  registry is the base list filtered by the mode alone. A listed name that matches no
  base capability adds nothing (the tool list and the registry stay within the base list,
  the name is neither listed nor invokable) and raises no error: construction succeeds
  for every configuration when the base names are distinct, as those of \<open>gitTools\<close> are.
\<close>

theorem allow_list_restricts:
  assumes "distinct (map cap_name base)"
  shows "let srv = GitToolsMcpServer_options base config in
      McpServer_new (GitToolsMcpServer_options base config) = Inr srv
    \<and> set (opt_tools srv) \<subseteq> set base
    \<and> set (registry srv) \<subseteq> set base
    \<and> (\<forall>names. availableTools config = Some names \<and> names \<noteq> [] \<longrightarrow>
          opt_tools srv = filter (\<lambda>c. cap_name c \<in> set names) base
        \<and> (\<forall>c \<in> set (registry srv). cap_name c \<in> set names)
        \<and> (\<forall>n. n \<notin> set names \<or> n \<notin> cap_name ` set base \<longrightarrow>
              n \<notin> cap_name ` set (opt_tools srv)
            \<and> n \<notin> set (map name (ListCapabilities srv))
            \<and> (\<forall>pf args w. InvokeCapability srv pf n args w = Some (Inl NotFound, [], w))))
    \<and> (availableTools config = None \<or> availableTools config = Some [] \<longrightarrow>
          opt_tools srv = base
        \<and> registry srv
            = filter (\<lambda>c. mode_admits (mode (opt_toolsetConfig srv)) (tool_definition c)) base)"
proof -
  let ?srv = "GitToolsMcpServer_options base config"
  have "distinct (map cap_name (opt_tools ?srv))"
    using assms by (simp add: opt_tools_allow distinct_map_filter)
  then have new: "McpServer_new ?srv = Inr ?srv"
    by (simp add: McpServer_new_def)
  have sub0: "set (opt_tools ?srv) \<subseteq> set base"
    by (simp add: opt_tools_allow)
  have sub: "set (registry ?srv) \<subseteq> set base"
    by (simp add: registry_options)
  have tools: "opt_tools ?srv = filter (\<lambda>c. cap_name c \<in> set names) base"
    if "availableTools config = Some names" "names \<noteq> []" for names
    using that by (simp add: opt_tools_allow)
  have allow: "cap_name c \<in> set names"
    if "availableTools config = Some names" "names \<noteq> []" "c \<in> set (registry ?srv)" for names c
    using that by (simp add: registry_options isVisible_def)
  have hidden: "n \<notin> cap_name ` set (opt_tools ?srv)
      \<and> n \<notin> set (map name (ListCapabilities ?srv))
      \<and> (\<forall>pf args w. InvokeCapability ?srv pf n args w = Some (Inl NotFound, [], w))"
    if "availableTools config = Some names" "names \<noteq> []"
      "n \<notin> set names \<or> n \<notin> cap_name ` set base" for names n
  proof -
    have 0: "n \<notin> cap_name ` set (opt_tools ?srv)"
      using that(3) by (auto simp: tools [OF that(1,2)])
    then have "n \<notin> cap_name ` set (registry ?srv)"
      by (auto simp: registry_def)
    with 0 show ?thesis
      by (auto simp: ListCapabilities_def resolve_NotFound_iff intro!: invoke_NotFound)
  qed
  have open_list: "opt_tools ?srv = base \<and> registry ?srv
      = filter (\<lambda>c. mode_admits (mode (opt_toolsetConfig ?srv)) (tool_definition c)) base"
    if "availableTools config = None \<or> availableTools config = Some []"
    using that by (auto simp: registry_def opt_tools_allow)
  show ?thesis
    unfolding Let_def using new sub0 sub tools allow hidden open_list by blast
qed

theorem allow_list_restricts_witness:
  "let base = gitTools;
       srv = GitToolsMcpServer_options base
               \<lparr>toolsetConfig = None, dynamicToolDiscovery = None,
                availableTools = Some [''no_such_tool'', ''get_git_log'']\<rparr>;
       srv0 = GitToolsMcpServer_options base
               \<lparr>toolsetConfig = None, dynamicToolDiscovery = None, availableTools = Some []\<rparr>
   in distinct (map cap_name base)
    \<and> McpServer_new srv = Inr srv
    \<and> ListCapabilities srv = [getLogTool]
    \<and> InvokeCapability srv (scripted []) ''no_such_tool'' [] [] = Some (Inl NotFound, [], [])
    \<and> InvokeCapability srv (scripted []) ''get_git_status'' [] [] = Some (Inl NotFound, [], [])
    \<and> McpServer_new srv0 = Inr srv0
    \<and> registry srv0 = base"
proof -
  let ?cfg = "\<lparr>toolsetConfig = None, dynamicToolDiscovery = None,
                availableTools = Some [''no_such_tool'', ''get_git_log'']\<rparr>"
  let ?cfg_e = "\<lparr>toolsetConfig = None, dynamicToolDiscovery = None, availableTools = Some []\<rparr>"
  let ?base = "gitTools :: string list ToolCapability list"
  let ?srv = "GitToolsMcpServer_options ?base ?cfg"
  let ?srv_e = "GitToolsMcpServer_options ?base ?cfg_e"
  have d: "distinct (map cap_name ?base)"
    by (simp add: tool_defs)
  note inst = allow_list_restricts [OF d, of ?cfg, unfolded Let_def]
  note inst0 = allow_list_restricts [OF d, of ?cfg_e, unfolded Let_def]
  have new: "McpServer_new ?srv = Inr ?srv"
    by (rule inst [THEN conjunct1])
  have new0: "McpServer_new ?srv_e = Inr ?srv_e"
    by (rule inst0 [THEN conjunct1])
  have l: "ListCapabilities ?srv = [getLogTool]"
    by (simp add: ListCapabilities_def registry_def mode_admits_def GitToolsMcpServer_options_def
        tool_defs read_only_annotations_def)
  have names: "availableTools ?cfg = Some [''no_such_tool'', ''get_git_log'']
      \<and> [''no_such_tool'', ''get_git_log''] \<noteq> []"
    by simp
  note hidden = inst [THEN conjunct2, THEN conjunct2, THEN conjunct2, THEN conjunct1,
      THEN spec, THEN mp, OF names, THEN conjunct2, THEN conjunct2, THEN spec, THEN mp,
      THEN conjunct2, THEN conjunct2, THEN spec, THEN spec, THEN spec]
  have i1: "InvokeCapability ?srv (scripted []) ''no_such_tool'' [] [] = Some (Inl NotFound, [], [])"
    by (rule hidden) (simp add: tool_defs)
  have i2: "InvokeCapability ?srv (scripted []) ''get_git_status'' [] [] = Some (Inl NotFound, [], [])"
    by (rule hidden) simp
  have "registry ?srv_e
      = filter (\<lambda>c. mode_admits (mode (opt_toolsetConfig ?srv_e)) (tool_definition c)) ?base"
    using inst0 [THEN conjunct2, THEN conjunct2, THEN conjunct2, THEN conjunct2] by simp
  also have "\<dots> = ?base"
    by (simp add: mode_admits_def GitToolsMcpServer_options_def tool_defs read_only_annotations_def)
  finally have r0: "registry ?srv_e = ?base" .
  show ?thesis
    unfolding Let_def by (intro conjI) (rule d new l i1 i2 new0 r0)+
qed

text \<open>
  C8. For every mode and every \<open>availableTools\<close>, the tool list the constructor passes on
  is the base list filtered in place, and the registry of the server built from it (and
  with it \<open>ListCapabilities\<close>) is exactly the base list, in its declaration order, with
  the capabilities removed that the policy \<open>isVisible\<close> of the spec hides: an
  order-preserving subsequence, given by a function of the mode, the list and the base.
\<close>

theorem registry_is_filtered_base:
  assumes "McpServer_new (GitToolsMcpServer_options base config) = Inr srv"
  shows "opt_tools srv
        = (if availableTools config = None \<or> availableTools config = Some [] then base
           else filter (\<lambda>c. cap_name c \<in> set (the (availableTools config))) base)
    \<and> subseq (opt_tools srv) base
    \<and> registry srv = filter (isVisible (mode (opt_toolsetConfig srv)) (availableTools config)) base
    \<and> ListCapabilities srv
        = map tool_definition (filter (isVisible (mode (opt_toolsetConfig srv)) (availableTools config)) base)
    \<and> subseq (registry srv) base
    \<and> subseq (ListCapabilities srv) (map tool_definition base)"
proof -
  have srv: "srv = GitToolsMcpServer_options base config"
    using McpServer_new_Inr [OF assms] by simp
  have t: "opt_tools srv
        = (if availableTools config = None \<or> availableTools config = Some [] then base
           else filter (\<lambda>c. cap_name c \<in> set (the (availableTools config))) base)"
    unfolding srv by (rule opt_tools_allow)
  then have s: "subseq (opt_tools srv) base"
    by simp
  have r: "registry srv = filter (isVisible (mode (opt_toolsetConfig srv)) (availableTools config)) base"
    unfolding srv by (rule registry_options)
  from t s r show ?thesis
    by (simp add: ListCapabilities_def subseq_map)
qed

theorem registry_is_filtered_base_witness:
  "let base = gitTools;
       srv = GitToolsMcpServer_options base
               \<lparr>toolsetConfig = Some \<lparr>mode = allMode\<rparr>, dynamicToolDiscovery = None,
                availableTools = Some [''get_git_log'', ''get_current_branch'']\<rparr>
   in McpServer_new srv = Inr srv
    \<and> map cap_name (opt_tools srv) = [''get_current_branch'', ''get_git_log'']
    \<and> ListCapabilities srv = [getCurrentBranchTool, getLogTool]
    \<and> subseq (ListCapabilities srv) (map tool_definition base)
    \<and> InvokeCapability srv (scripted []) ''get_git_status'' [] [] = Some (Inl NotFound, [], [])"
proof -
  let ?cfg = "\<lparr>toolsetConfig = Some \<lparr>mode = allMode\<rparr>, dynamicToolDiscovery = None,
                availableTools = Some [''get_git_log'', ''get_current_branch'']\<rparr>"
  let ?srv = "GitToolsMcpServer_options (gitTools :: string list ToolCapability list) ?cfg"
  have new: "McpServer_new ?srv = Inr ?srv"
    by (simp add: McpServer_new_def GitToolsMcpServer_options_def tool_defs)
  have vis: "map tool_definition
       (filter (isVisible (mode (opt_toolsetConfig ?srv)) (availableTools ?cfg)) gitTools)
      = [getCurrentBranchTool, getLogTool]"
    by (simp add: isVisible_def mode_admits_def GitToolsMcpServer_options_def tool_defs)
  have names: "map cap_name (opt_tools ?srv) = [''get_current_branch'', ''get_git_log'']"
    by (simp add: GitToolsMcpServer_options_def tool_defs)
  have inv: "InvokeCapability ?srv (scripted []) ''get_git_status'' [] [] = Some (Inl NotFound, [], [])"
    by (simp add: InvokeCapability_def resolve_def registry_def mode_admits_def
        GitToolsMcpServer_options_def tool_defs)
  note inst = registry_is_filtered_base [OF new, unfolded vis]
  have l: "ListCapabilities ?srv = [getCurrentBranchTool, getLogTool]"
    by (rule inst [THEN conjunct2, THEN conjunct2, THEN conjunct2, THEN conjunct1])
  have s: "subseq (ListCapabilities ?srv)
      (map tool_definition (gitTools :: string list ToolCapability list))"
    by (rule inst [THEN conjunct2, THEN conjunct2, THEN conjunct2, THEN conjunct2, THEN conjunct2])
  show ?thesis
    unfolding Let_def by (intro conjI) (rule new names l s inv)+
qed

text \<open>
  C6. When the name resolves and the argument record lacks a field that the input schema
  of the capability marks required, \<open>InvokeCapability\<close> fails with a \<open>ValidationError\<close>
  whose paths include that field; no handler call is made and the world is unchanged.
\<close>

theorem missing_required_field:
  assumes "resolve srv n = Inr c"
    and "f \<in> set (shape (inputSchema (tool_definition c)))"
    and "\<not> field_optional f"
    and "map_of args (field_name f) = None"
  shows "\<exists>paths. InvokeCapability srv pf n args w = Some (Inl (ValidationError paths), [], w)
    \<and> field_name f \<in> set paths"
proof -
  have "field_mismatch args f"
    using assms(3,4) by (simp add: field_mismatch_def)
  then have "field_name f \<in> set (validate (inputSchema (tool_definition c)) args)"
    using assms(2) by (auto simp: validate_def)
  then show ?thesis
    using assms(1) by (cases "validate (inputSchema (tool_definition c)) args")
      (auto simp: InvokeCapability_def)
qed

theorem missing_required_field_witness:
  "let srv = GitToolsMcpServer_options gitTools
               \<lparr>toolsetConfig = None, dynamicToolDiscovery = None, availableTools = None\<rparr>;
       args = [(''maxCount'', JNumber 2)]
   in resolve srv ''get_git_log'' = Inr (createTool getLogTool getLog_handler)
    \<and> path_field \<in> set (shape (inputSchema getLogTool))
    \<and> \<not> field_optional path_field
    \<and> map_of args (field_name path_field) = None
    \<and> InvokeCapability srv (scripted []) ''get_git_log'' args []
        = Some (Inl (ValidationError [''path'']), [], [])"
proof -
  let ?srv = "GitToolsMcpServer_options (gitTools :: string list ToolCapability list)
               \<lparr>toolsetConfig = None, dynamicToolDiscovery = None, availableTools = None\<rparr>"
  let ?args = "[(''maxCount'', JNumber 2)]"
  have r: "resolve ?srv ''get_git_log'' = Inr (createTool getLogTool getLog_handler)"
    by (simp add: resolve_def registry_def mode_admits_def GitToolsMcpServer_options_def
        tool_defs read_only_annotations_def)
  have f: "path_field \<in> set (shape (inputSchema (tool_definition
      (createTool getLogTool getLog_handler :: string list ToolCapability))))"
    by (simp add: tool_defs z_object_def)
  have o: "\<not> field_optional path_field"
    by (simp add: path_field_def)
  have m: "map_of ?args (field_name path_field) = None"
    by (simp add: path_field_def)
  have v: "validate (inputSchema getLogTool) ?args = [''path'']"
    by (simp add: validate_def field_mismatch_def getLogTool_def z_object_def path_field_def)
  obtain paths where
    "InvokeCapability ?srv (scripted []) ''get_git_log'' ?args [] = Some (Inl (ValidationError paths), [], [])"
    using missing_required_field [OF r f o m] by blast
  moreover have "InvokeCapability ?srv (scripted []) ''get_git_log'' ?args []
      = Some (Inl (ValidationError [''path'']), [], [])"
    by (simp add: InvokeCapability_def r v createTool_def)
  ultimately show ?thesis
    using r f o m unfolding Let_def by (simp add: createTool_def)
qed

text \<open>
  C1. The SSE entry point keeps one \<open>transport\<close> variable for all connections. After two
  clients have opened sessions 1 and 2, a message posted for session 1 is handed to the
  transport of session 2, and the transport of session 1 is no longer reachable: the
  variable holds the transport of the last \<open>GET /sse\<close> only.
\<close>

theorem sse_post_reaches_latest_transport_only:
  "handled (sse_run [GET_sse 1, GET_sse 2, POST_messages 1 body])
     = [(\<lparr>endpoint = ''/messages'', res = 2\<rparr>, 1, body)]
   \<and> transport (sse_run [GET_sse 1, GET_sse 2, POST_messages 1 body])
     = Some \<lparr>endpoint = ''/messages'', res = 2\<rparr>
   \<and> connected (sse_run [GET_sse 1, GET_sse 2, POST_messages 1 body])
     = [\<lparr>endpoint = ''/messages'', res = 1\<rparr>, \<lparr>endpoint = ''/messages'', res = 2\<rparr>]"
  by (simp add: sse_run_def sse_start_def Let_def)

text \<open>
  C4. The handler of \<open>get_git_log\<close>, called with \<open>{path: p, maxCount: 2}\<close>, runs
  \<open>git -C "p" log -n 2 --pretty=oneline\<close> and returns its output unchanged as the single
  text block. In a repository with at least three commits git answers that command with
  the two newest summaries, one per line, so the block holds exactly two summaries joined
  by a line feed (followed by the line feed that ends git's last line).
\<close>

theorem log_maxCount_2:
  assumes "map_of args ''path'' = Some (JString p)"
    and "map_of args ''maxCount'' = Some (JNumber 2)"
    and "3 \<le> length commits"
    and "execAsync pf (''git -C '' @ [CHR 0x22] @ p @ [CHR 0x22] @ '' log -n 2 --pretty=oneline'') w
         = (Inr (oneline (take 2 commits)), w')"
  shows "getToolHandler ''get_git_log'' = Some (getLog_handler :: 'w handler_fn)
    \<and> getLog_handler pf args (w :: 'w)
      = Some (Inr [Text (join_with [CHR 0x0A] [commits ! 0, commits ! 1] @ [CHR 0x0A])], w')"
proof -
  obtain a b rest where cs: "commits = a # b # rest"
    using assms(3) by (cases commits; cases "tl commits") auto
  have "countArg args = ''-n 2''"
    using assms(2) by (simp add: countArg_def show_int_def show_nat.simps)
  then show ?thesis
    using assms(1,4) cs
    by (simp add: handler_lookup getLog_handler_def git_C_def run_command_def oneline_def)
qed

theorem log_maxCount_2_witness:
  "let cmd = ''git -C '' @ [CHR 0x22] @ ''/srv/repo'' @ [CHR 0x22] @ '' log -n 2 --pretty=oneline'';
       commits = [''c3c3 third'', ''b2b2 second'', ''a1a1 first''];
       pf = scripted [(cmd, oneline (take 2 commits))];
       args = [(''path'', JString ''/srv/repo''), (''maxCount'', JNumber 2)]
   in map_of args ''path'' = Some (JString ''/srv/repo'')
    \<and> map_of args ''maxCount'' = Some (JNumber 2)
    \<and> 3 \<le> length commits
    \<and> execAsync pf cmd [] = (Inr (oneline (take 2 commits)), [cmd])
    \<and> getLog_handler pf args []
        = Some (Inr [Text (''c3c3 third'' @ [CHR 0x0A] @ ''b2b2 second'' @ [CHR 0x0A])], [cmd])"
proof -
  let ?cmd = "''git -C '' @ [CHR 0x22] @ ''/srv/repo'' @ [CHR 0x22] @ '' log -n 2 --pretty=oneline''"
  let ?commits = "[''c3c3 third'', ''b2b2 second'', ''a1a1 first'']"
  let ?pf = "scripted [(?cmd, oneline (take 2 ?commits))]"
  let ?args = "[(''path'', JString ''/srv/repo''), (''maxCount'', JNumber 2)]"
  have a: "map_of ?args ''path'' = Some (JString ''/srv/repo'')" by simp
  have b: "map_of ?args ''maxCount'' = Some (JNumber 2)" by simp
  have c: "3 \<le> length ?commits" by simp
  have d: "execAsync ?pf ?cmd [] = (Inr (oneline (take 2 ?commits)), [?cmd])"
    by (simp add: scripted_def)
  have e: "getLog_handler ?pf ?args []
        = Some (Inr [Text (''c3c3 third'' @ [CHR 0x0A] @ ''b2b2 second'' @ [CHR 0x0A])], [?cmd])"
    using log_maxCount_2 [OF a b c d] by simp
  show ?thesis
    unfolding Let_def by (intro conjI) (rule a b c d e)+
qed

text \<open>
  C5. The handler of \<open>get_current_branch\<close>, called with \<open>{path: p}\<close>, runs
  \<open>git -C "p" rev-parse --abbrev-ref HEAD\<close> and trims the output: when git prints
  \<open>main\<close> followed by white space only (its line feed), the single text block is exactly
  \<open>main\<close>.
\<close>

theorem current_branch_main:
  assumes "map_of args ''path'' = Some (JString p)"
    and "list_all is_js_whitespace ws"
    and "execAsync pf (''git -C '' @ [CHR 0x22] @ p @ [CHR 0x22] @ '' rev-parse --abbrev-ref HEAD'') w
         = (Inr (''main'' @ ws), w')"
  shows "getToolHandler ''get_current_branch'' = Some (getCurrentBranch_handler :: 'w handler_fn)
    \<and> getCurrentBranch_handler pf args (w :: 'w) = Some (Inr [Text ''main''], w')"
proof -
  have "trim (''main'' @ ws) = ''main''"
    by (rule trim_trailing [OF _ _ _ assms(2)]) (simp_all add: is_js_whitespace_def)
  then show ?thesis
    using assms(1,3)
    by (simp add: handler_lookup getCurrentBranch_handler_def git_C_def run_command_def)
qed

theorem current_branch_main_witness:
  "let cmd = ''git -C '' @ [CHR 0x22] @ ''/srv/repo'' @ [CHR 0x22] @ '' rev-parse --abbrev-ref HEAD'';
       pf = scripted [(cmd, ''main'' @ [CHR 0x0A])];
       args = [(''path'', JString ''/srv/repo'')]
   in map_of args ''path'' = Some (JString ''/srv/repo'')
    \<and> list_all is_js_whitespace [CHR 0x0A]
    \<and> execAsync pf cmd [] = (Inr (''main'' @ [CHR 0x0A]), [cmd])
    \<and> getCurrentBranch_handler pf args [] = Some (Inr [Text ''main''], [cmd])"
proof -
  let ?cmd = "''git -C '' @ [CHR 0x22] @ ''/srv/repo'' @ [CHR 0x22] @ '' rev-parse --abbrev-ref HEAD''"
  let ?pf = "scripted [(?cmd, ''main'' @ [CHR 0x0A])]"
  let ?args = "[(''path'', JString ''/srv/repo'')]"
  have a: "map_of ?args ''path'' = Some (JString ''/srv/repo'')" by simp
  have b: "list_all is_js_whitespace [CHR 0x0A]" by (simp add: is_js_whitespace_def)
  have c: "execAsync ?pf ?cmd [] = (Inr (''main'' @ [CHR 0x0A]), [?cmd])"
    by (simp add: scripted_def)
  have d: "getCurrentBranch_handler ?pf ?args [] = Some (Inr [Text ''main''], [?cmd])"
    by (rule current_branch_main [OF a b c, THEN conjunct2])
  show ?thesis
    unfolding Let_def by (intro conjI) (rule a b c d)+
qed

text \<open>
  C9. \<open>maxCount = 0\<close> is falsy, so the handler of \<open>get_git_log\<close> adds no \<open>-n\<close> argument:
  on every platform and in every world it behaves as with \<open>maxCount\<close> omitted. Both calls
  run the unrestricted \<open>git -C "p" log  --pretty=oneline\<close> and return whatever it prints,
  the full commit log, as the single text block (or reject with its failure); the
  command with \<open>-n 0\<close>, which prints no entry, is never run.
\<close>

theorem maxCount_zero_is_omitted:
  "getToolHandler ''get_git_log'' = Some (getLog_handler :: 'w handler_fn)
   \<and> getLog_handler pf (AList.update ''maxCount'' (JNumber 0) args) (w :: 'w)
     = getLog_handler pf (AList.delete ''maxCount'' args) w
   \<and> getLog_handler pf (AList.update ''maxCount'' (JNumber 0) args) w
     = run_command pf (git_C args @ '' log  --pretty=oneline'') (\<lambda>stdout. stdout) w
   \<and> (\<forall>out w'. execAsync pf (git_C args @ '' log  --pretty=oneline'') w = (Inr out, w') \<longrightarrow>
         getLog_handler pf (AList.update ''maxCount'' (JNumber 0) args) w = Some (Inr [Text out], w')
       \<and> getLog_handler pf (AList.delete ''maxCount'' args) w = Some (Inr [Text out], w'))
   \<and> (\<forall>e w'. execAsync pf (git_C args @ '' log  --pretty=oneline'') w = (Inl e, w') \<longrightarrow>
         getLog_handler pf (AList.update ''maxCount'' (JNumber 0) args) w
           = Some (Inl (ExecFailure e), w')
       \<and> getLog_handler pf (AList.delete ''maxCount'' args) w = Some (Inl (ExecFailure e), w'))"
  by (simp add: handler_lookup getLog_handler_def countArg_def git_C_def update_conv' delete_conv'
      run_command_def)

theorem maxCount_zero_is_omitted_witness:
  "let full = ''git -C '' @ [CHR 0x22] @ ''/srv/repo'' @ [CHR 0x22] @ '' log  --pretty=oneline'';
       none = ''git -C '' @ [CHR 0x22] @ ''/srv/repo'' @ [CHR 0x22] @ '' log -n 0 --pretty=oneline'';
       commits = [''c3c3 third'', ''b2b2 second'', ''a1a1 first''];
       pf = scripted [(full, oneline commits), (none, [])];
       args = [(''path'', JString ''/srv/repo'')]
   in execAsync pf (git_C args @ '' log  --pretty=oneline'') [] = (Inr (oneline commits), [full])
    \<and> AList.update ''maxCount'' (JNumber 0) args
        = [(''path'', JString ''/srv/repo''), (''maxCount'', JNumber 0)]
    \<and> AList.delete ''maxCount'' args = args
    \<and> getLog_handler pf [(''path'', JString ''/srv/repo''), (''maxCount'', JNumber 0)] []
        = Some (Inr [Text (''c3c3 third'' @ [CHR 0x0A] @ ''b2b2 second'' @ [CHR 0x0A]
                           @ ''a1a1 first'' @ [CHR 0x0A])], [full])
    \<and> getLog_handler pf args []
        = Some (Inr [Text (''c3c3 third'' @ [CHR 0x0A] @ ''b2b2 second'' @ [CHR 0x0A]
                           @ ''a1a1 first'' @ [CHR 0x0A])], [full])"
proof -
  let ?full = "''git -C '' @ [CHR 0x22] @ ''/srv/repo'' @ [CHR 0x22] @ '' log  --pretty=oneline''"
  let ?none = "''git -C '' @ [CHR 0x22] @ ''/srv/repo'' @ [CHR 0x22] @ '' log -n 0 --pretty=oneline''"
  let ?commits = "[''c3c3 third'', ''b2b2 second'', ''a1a1 first'']"
  let ?text = "''c3c3 third'' @ [CHR 0x0A] @ ''b2b2 second'' @ [CHR 0x0A] @ ''a1a1 first'' @ [CHR 0x0A]"
  let ?pf = "scripted [(?full, oneline ?commits), (?none, [])]"
  let ?args = "[(''path'', JString ''/srv/repo'')]"
  have o: "oneline ?commits = ?text"
    by (simp add: oneline_def)
  have a: "execAsync ?pf (git_C ?args @ '' log  --pretty=oneline'') [] = (Inr (oneline ?commits), [?full])"
    by (simp add: scripted_def git_C_def)
  have u: "AList.update ''maxCount'' (JNumber 0) ?args
        = [(''path'', JString ''/srv/repo''), (''maxCount'', JNumber 0)]"
    by simp
  have d: "AList.delete ''maxCount'' ?args = ?args"
    by simp
  note inst = maxCount_zero_is_omitted [of ?pf ?args "[]", THEN conjunct2, THEN conjunct2,
      THEN conjunct2, THEN conjunct1, THEN spec, THEN spec, THEN mp, OF a, unfolded u d]
  have z: "getLog_handler ?pf [(''path'', JString ''/srv/repo''), (''maxCount'', JNumber 0)] []
        = Some (Inr [Text ?text], [?full])"
    using inst [THEN conjunct1] unfolding o .
  have n: "getLog_handler ?pf ?args [] = Some (Inr [Text ?text], [?full])"
    using inst [THEN conjunct2] unfolding o .
  show ?thesis
    unfolding Let_def by (intro conjI) (rule a u d z n)+
qed

text \<open>
  C7. Called with a string \<open>path\<close> on a POSIX platform, the handler of
  \<open>get_git_repos_from_path\<close> always resolves with a success payload: the JSON array of
  the ancestors of the resolved path whose probe found a \<open>.git\<close> directory. A probe whose
  first or second run throws counts as "not found" and the walk goes on with the world the
  failed run left and with the remaining ancestors.
\<close>

theorem repos_handler_swallows_probe_failures:
  assumes "path_dirname pf = dirname"
    and "map_of args ''path'' = Some (JString p)"
  shows "getGitRepos_handler pf args w =
      Some (Inr [Text (JSON_stringify (fst (probe_all pf (ancestors (path_resolve pf p)) w)))],
            snd (probe_all pf (ancestors (path_resolve pf p)) w))
    \<and> (\<forall>d ds w0 e w1. execAsync pf (probe_command (path_join pf d ''.git'')) w0 = (Inl e, w1)
          \<longrightarrow> probe pf d w0 = (False, w1)
            \<and> probe_all pf (d # ds) w0 = probe_all pf ds w1)
    \<and> (\<forall>d ds w0 x w1 e w2. execAsync pf (probe_command (path_join pf d ''.git'')) w0 = (Inr x, w1)
          \<and> execAsync pf (probe_command (path_join pf d ''.git'')) w1 = (Inl e, w2)
          \<longrightarrow> probe pf d w0 = (False, w2)
            \<and> probe_all pf (d # ds) w0 = probe_all pf ds w2)"
  using assms by (simp add: getGitRepos_handler_def walk_ancestors probe_def case_prod_beta)

theorem repos_handler_swallows_probe_failures_witness:
  "let pf = scripted [(probe_command ''/srv/repo/.git'', ''found'' @ [CHR 0x0A]),
                      (probe_command ''/srv/.git'', ''notfound'' @ [CHR 0x0A]),
                      (probe_command ''/.git'', ''notfound'' @ [CHR 0x0A])];
       args = [(''path'', JString ''/srv/repo/src'')]
   in path_dirname pf = dirname
    \<and> map_of args ''path'' = Some (JString ''/srv/repo/src'')
    \<and> execAsync pf (probe_command (path_join pf ''/srv/repo/src'' ''.git'')) []
        = (Inl (ExecError (probe_command ''/srv/repo/src/.git'')),
           [probe_command ''/srv/repo/src/.git''])
    \<and> getGitRepos_handler pf args []
        = Some (Inr [Text (''['' @ [CHR 0x22] @ ''/srv/repo'' @ [CHR 0x22] @ '']'')],
                [probe_command ''/srv/repo/src/.git'',
                 probe_command ''/srv/repo/.git'', probe_command ''/srv/repo/.git'',
                 probe_command ''/srv/.git'', probe_command ''/srv/.git'',
                 probe_command ''/.git'', probe_command ''/.git''])"
proof -
  let ?pf = "scripted [(probe_command ''/srv/repo/.git'', ''found'' @ [CHR 0x0A]),
                       (probe_command ''/srv/.git'', ''notfound'' @ [CHR 0x0A]),
                       (probe_command ''/.git'', ''notfound'' @ [CHR 0x0A])]"
  let ?args = "[(''path'', JString ''/srv/repo/src'')]"
  have a: "path_dirname ?pf = dirname"
    by (simp add: scripted_def)
  have b: "map_of ?args ''path'' = Some (JString ''/srv/repo/src'')"
    by simp
  have c: "execAsync ?pf (probe_command (path_join ?pf ''/srv/repo/src'' ''.git'')) []
        = (Inl (ExecError (probe_command ''/srv/repo/src/.git'')),
           [probe_command ''/srv/repo/src/.git''])"
    by (simp add: scripted_def probe_command_def)
  have r: "path_resolve ?pf ''/srv/repo/src'' = ''/srv/repo/src''"
    by (simp add: scripted_def)
  have anc: "ancestors ''/srv/repo/src'' = [''/srv/repo/src'', ''/srv/repo'', ''/srv'', ''/'']"
    by code_simp
  have pa: "probe_all ?pf [''/srv/repo/src'', ''/srv/repo'', ''/srv'', ''/''] []
      = ([''/srv/repo''],
         [probe_command ''/srv/repo/src/.git'',
          probe_command ''/srv/repo/.git'', probe_command ''/srv/repo/.git'',
          probe_command ''/srv/.git'', probe_command ''/srv/.git'',
          probe_command ''/.git'', probe_command ''/.git''])"
    by (simp add: probe_def scripted_def probe_command_def trim_def is_js_whitespace_def)
  have js: "JSON_stringify [''/srv/repo''] = ''['' @ [CHR 0x22] @ ''/srv/repo'' @ [CHR 0x22] @ '']''"
    by (simp add: JSON_stringify_def JSON_quote_def JSON_quote_char_def)
  have d: "getGitRepos_handler ?pf ?args []
        = Some (Inr [Text (''['' @ [CHR 0x22] @ ''/srv/repo'' @ [CHR 0x22] @ '']'')],
                [probe_command ''/srv/repo/src/.git'',
                 probe_command ''/srv/repo/.git'', probe_command ''/srv/repo/.git'',
                 probe_command ''/srv/.git'', probe_command ''/srv/.git'',
                 probe_command ''/.git'', probe_command ''/.git''])"
    using repos_handler_swallows_probe_failures [OF a b, of "[]", THEN conjunct1]
    unfolding r anc pa js fst_conv snd_conv .
  show ?thesis
    unfolding Let_def by (intro conjI) (rule a b c d)+
qed



end
